theory Spec2Isabelle
  imports
    Complex_Main
    "HOL-Library.Char_ord"
    "HOL-Library.List_Lexorder"
    "HOL-Library.Multiset"
begin

section \<open>Conventions of the embedding\<close>

text \<open>
  The development embeds \<^verbatim>\<open>IntraSetRelation.cpp\<close> and the calibration part of
  \<^verbatim>\<open>ProteinProbEstimator.cpp\<close>.

  \<^item> A C++ \<^verbatim>\<open>double\<close> is modelled by the real number it denotes: comparisons of
    finite doubles are exact, rounding of \<^verbatim>\<open>+\<close>, \<^verbatim>\<open>*\<close> and \<^verbatim>\<open>/\<close> is not modelled,
    and NaN and the infinities are left out. The values of a grid loop are therefore the
    exact multiples of its step; in double arithmetic the accumulated steps carry
    rounding errors and a loop may leave out the value at its upper bound.
  \<^item> A failed \<^verbatim>\<open>assert\<close> aborts the program; it is the \<open>Inl\<close> branch of a sum.
  \<^item> \<^verbatim>\<open>std::map\<close> is a partial function where only lookups matter and an
    association list in key order where the code iterates over it; \<^verbatim>\<open>std::set<string>\<close>
    is a \<open>string set\<close>, iterated in ascending order.
  \<^item> \<^verbatim>\<open>cerr\<close> is a list of events, appended to when \<^verbatim>\<open>VERB > 2\<close>. The dumps
    to files under \<^verbatim>\<open>/tmp/fido\<close> and the call of \<^verbatim>\<open>srand\<close> influence no value
    of the program and are left out.
\<close>

section \<open>IntraSetRelation\<close>

text \<open>
  Modelled from the spec: the header \<^verbatim>\<open>IntraSetRelation.h\<close> with the types of the
  three members is missing. The data model gives two maps from an id to an occurrence
  count and a map from a protein id to the set of peptide ids it was registered with;
  the code agrees (\<^verbatim>\<open>count\<close>, \<^verbatim>\<open>++\<close>, one-argument \<^verbatim>\<open>insert\<close>, \<^verbatim>\<open>size\<close>).
  The counts are C++ \<^verbatim>\<open>int\<close>; they count calls and are read as unbounded integers.
\<close>

record IntraSetRelation =
  numProteins :: "string \<rightharpoonup> int"
  numPeptides :: "string \<rightharpoonup> int"
  prot2pep :: "string \<rightharpoonup> string set"

definition IntraSetRelation_new :: IntraSetRelation where
  "IntraSetRelation_new =
     \<lparr>numProteins = Map.empty, numPeptides = Map.empty, prot2pep = Map.empty\<rparr>"

text \<open>
  \<^verbatim>\<open>if(m.count(k)==0) m[k]=1; else m[k]++;\<close>
\<close>

definition countOrIncrement :: "(string \<rightharpoonup> int) \<Rightarrow> string \<Rightarrow> (string \<rightharpoonup> int)" where
  "countOrIncrement m k = (case m k of None \<Rightarrow> m(k \<mapsto> 1) | Some c \<Rightarrow> m(k \<mapsto> c + 1))"

text \<open>
  \<^verbatim>\<open>m[k]\<close> on a \<^verbatim>\<open>std::map\<close>: a missing key is inserted with a value-initialised
  entry (here the empty set) before the reference is returned.
\<close>

definition subscript :: "(string \<rightharpoonup> string set) \<Rightarrow> string \<Rightarrow> (string \<rightharpoonup> string set) \<times> string set" where
  "subscript m k = (case m k of None \<Rightarrow> (m(k \<mapsto> {}), {}) | Some s \<Rightarrow> (m, s))"

text \<open>The body of the loop of \<^verbatim>\<open>registerRel\<close> for one protein \<open>iProt\<close>.\<close>

definition registerRel_body :: "string \<Rightarrow> string \<Rightarrow> IntraSetRelation \<Rightarrow> IntraSetRelation" where
  "registerRel_body pep iProt r =
     (let np = countOrIncrement (numProteins r) iProt;
          (m, s) = subscript (prot2pep r) iProt
      in r\<lparr>numProteins := np, prot2pep := m(iProt \<mapsto> insert pep s)\<rparr>)"

definition registerRel :: "IntraSetRelation \<Rightarrow> string \<Rightarrow> string set \<Rightarrow> IntraSetRelation" where
  "registerRel r pep prot =
     fold (registerRel_body pep) (sorted_list_of_set prot)
       (r\<lparr>numPeptides := countOrIncrement (numPeptides r) pep\<rparr>)"

text \<open>The body of the loop of \<^verbatim>\<open>getPepSites\<close>: the state is \<open>maxn\<close> and the object.\<close>

definition getPepSites_body :: "string \<Rightarrow> int \<times> IntraSetRelation \<Rightarrow> int \<times> IntraSetRelation" where
  "getPepSites_body iProt = (\<lambda>(maxn, r).
     (let (m, s) = subscript (prot2pep r) iProt;
          n = int (card s)
      in (if n > maxn then n else maxn, r\<lparr>prot2pep := m\<rparr>)))"

definition getPepSites :: "IntraSetRelation \<Rightarrow> string set \<Rightarrow> int \<times> IntraSetRelation" where
  "getPepSites r prot = fold getPepSites_body (sorted_list_of_set prot) (0, r)"

section \<open>ProteinProbEstimator: data\<close>

text \<open>
  Modelled from the spec: \<^verbatim>\<open>ScoreHolder\<close> and \<^verbatim>\<open>PSMDescription\<close> are declared in
  headers that are missing. Of a scored peptide the code reads the label (target is
  \<open>1\<close>, anything else is a decoy) and, through \<^verbatim>\<open>pPSM\<close>, the set of protein ids and
  the peptide sequence.
\<close>

record ScoreHolder =
  label :: int
  proteinIds :: "string set"
  peptide :: string

text \<open>
  Modelled from the spec: of the inference engine \<^verbatim>\<open>GroupPowerBigraph\<close> the code reads
  two parallel arrays, the posterior error of every equivalence class and the protein
  ids of the class.
\<close>

record GroupPowerBigraph =
  probabilityR :: "real list"
  groupProtNames :: "string list list"

text \<open>\<^verbatim>\<open>fidoOutput(sorted, protein_ids, qvalues)\<close>, with the member names the code reads.\<close>

record fidoOutput =
  peps :: "real list"
  protein_ids :: "string list list"
  qvalues :: "real list"

text \<open>
  The estimator. \<open>peptideScores\<close> and \<open>proteinGraph\<close> are pointers, null after
  construction. The table \<open>proteinsToPeptides\<close> is a \<^verbatim>\<open>std::map\<close> that the code
  iterates over: an association list in ascending key order. Its entries point into the
  score vector, which nothing here writes to; the model stores the peptides themselves.
\<close>

record ProteinProbEstimator =
  alpha :: real
  beta :: real
  gamma :: real
  peptideScores :: "ScoreHolder list option"
  proteinGraph :: "GroupPowerBigraph option"
  proteinsToPeptides :: "(string \<times> ScoreHolder list) list"

text \<open>
  A point of the grid. The two coordinates are private members named \<^verbatim>\<open>alpha\<close> and
  \<^verbatim>\<open>beta\<close> in the source; the default constructor leaves them uninitialised
  (\<open>None\<close>).
\<close>

record gridPoint =
  truePositives :: "string list"
  falsePositives :: "string list"
  objectiveFnValue :: real
  pointAlpha :: "real option"
  pointBeta :: "real option"

datatype error =
    AssertionFailed string
  | IndexOutOfRange
  | UninitialisedRead

datatype event =
    Testing real real
  | ObjectiveValue real
  | BestChoiceSoFar
  | EstimatingByGridSearch
  | ParametersChosen real real

text \<open>
  What the code calls and the source tree does not hold: the verbosity level of
  \<^verbatim>\<open>Globals.h\<close>, the inference engine (construction with singleton ranges for alpha and
  beta and with gamma, \<^verbatim>\<open>read\<close>, \<^verbatim>\<open>getProteinProbs\<close>) and the four functions of
  \<^verbatim>\<open>ProteinProbEstimatorHelper.h\<close>. They are parameters of the model.
\<close>

record Collaborators =
  VERB :: int
  getProteinProbs :: "real \<Rightarrow> real \<Rightarrow> real \<Rightarrow> ScoreHolder list option \<Rightarrow> GroupPowerBigraph"
  calculateFDRs :: "fidoOutput \<Rightarrow> string list \<Rightarrow> string list \<Rightarrow> real list \<times> real list"
  calculateMSE_FDR :: "real \<Rightarrow> real list \<Rightarrow> real list \<Rightarrow> real"
  calculateRoc :: "fidoOutput \<Rightarrow> string list \<Rightarrow> string list \<Rightarrow> int list \<times> int list"
  calculateROC50 :: "int \<Rightarrow> int list \<Rightarrow> int list \<Rightarrow> real"

section \<open>ProteinProbEstimator: construction and the protein table\<close>

text \<open>
  One step of the inner loop of \<^verbatim>\<open>populateProteinsToPeptidesTable\<close>: look the protein
  up; insert a new pair if it is not there, append to its peptides otherwise.
\<close>

fun tableAdd :: "string \<Rightarrow> ScoreHolder \<Rightarrow> (string \<times> ScoreHolder list) list
    \<Rightarrow> (string \<times> ScoreHolder list) list" where
  "tableAdd prot pept [] = [(prot, [pept])]"
| "tableAdd prot pept ((k, peptides) # rest) =
     (if prot = k then (k, peptides @ [pept]) # rest
      else if prot < k then (prot, [pept]) # (k, peptides) # rest
      else (k, peptides) # tableAdd prot pept rest)"

definition populateProteinsToPeptidesTable ::
    "ScoreHolder list \<Rightarrow> ProteinProbEstimator \<Rightarrow> ProteinProbEstimator" where
  "populateProteinsToPeptidesTable fullset thisEstimator =
     fold (\<lambda>pept est.
        fold (\<lambda>prot est'. est'\<lparr>proteinsToPeptides := tableAdd prot pept (proteinsToPeptides est')\<rparr>)
          (sorted_list_of_set (proteinIds pept)) est)
       fullset thisEstimator"

definition ProteinProbEstimator_new :: "real \<Rightarrow> real \<Rightarrow> ProteinProbEstimator" where
  "ProteinProbEstimator_new alpha_par beta_par =
     \<lparr>alpha = alpha_par, beta = beta_par, gamma = 0.5, peptideScores = None,
      proteinGraph = None, proteinsToPeptides = []\<rparr>"

definition setDefaultParameters :: "ProteinProbEstimator \<Rightarrow> ProteinProbEstimator" where
  "setDefaultParameters est = est\<lparr>alpha := 0.1, beta := 0.01\<rparr>"

definition initialize :: "ScoreHolder list \<Rightarrow> ProteinProbEstimator \<Rightarrow> bool \<times> ProteinProbEstimator" where
  "initialize fullset est =
     (let est1 = populateProteinsToPeptidesTable fullset (est\<lparr>peptideScores := Some fullset\<rparr>);
          scheduleGridSearch = (alpha est1 = -1 \<or> beta est1 = -1)
      in (scheduleGridSearch, est1))"

section \<open>ProteinProbEstimator: buildOutput\<close>

text \<open>
  Modelled from the spec: \<^verbatim>\<open>Array<double>::sort()\<close> is not in the source tree. It
  sorts the array in place and returns the permutation it applied; the spec has it
  ascending, ties in the order of the original index.
\<close>

definition Array_sort :: "real list \<Rightarrow> real list \<times> nat list" where
  "Array_sort xs =
     (let pairs = sort_key fst (zip xs [0..<length xs])
      in (map fst pairs, map snd pairs))"

text \<open>
  The loop of \<^verbatim>\<open>buildOutput\<close> (the local \<^verbatim>\<open>sorted\<close> is \<open>sortedPeps\<close> here); its state is \<open>protein_ids\<close>, \<open>qvalues\<close> and
  \<open>sumPepSoFar\<close>. The class \<^verbatim>\<open>Array\<close> is missing as well: a read outside an array is
  a failure of the model.
\<close>

function buildOutput_loop :: "GroupPowerBigraph \<Rightarrow> real list \<Rightarrow> nat list \<Rightarrow> nat
    \<Rightarrow> string list list \<times> real list \<times> real
    \<Rightarrow> error + string list list \<times> real list \<times> real" where
  "buildOutput_loop g sortedPeps indices k (ids, qs, sumPepSoFar) =
     (if k < length sortedPeps then
        (if k < length indices \<and> indices ! k < length (groupProtNames g) then
           (let ids' = ids[k := groupProtNames g ! (indices ! k)];
                sumPepSoFar' = sumPepSoFar + sortedPeps ! k;
                qs' = qs[k := sumPepSoFar' / real (k + 1)]
            in buildOutput_loop g sortedPeps indices (k + 1) (ids', qs', sumPepSoFar'))
         else Inl IndexOutOfRange)
      else Inr (ids, qs, sumPepSoFar))"
  by pat_completeness auto
termination
  by (relation "measure (\<lambda>(g, sortedPeps, indices, k, st). length sortedPeps - k)") auto

definition buildOutput :: "GroupPowerBigraph \<Rightarrow> error + fidoOutput" where
  "buildOutput g =
     (if length (probabilityR g) = 0 then Inl (AssertionFailed ''sorted.size()!=0'')
      else
        (let (sortedPeps, indices) = Array_sort (probabilityR g);
             n = length sortedPeps
         in case buildOutput_loop g sortedPeps indices 0 (replicate n [], replicate n 0, 0) of
              Inl e \<Rightarrow> Inl e
            | Inr (ids, qs, sumPepSoFar) \<Rightarrow>
                Inr \<lparr>peps = sortedPeps, protein_ids = ids, qvalues = qs\<rparr>))"

section \<open>ProteinProbEstimator: one point of the grid\<close>

definition gridPoint_default :: gridPoint where
  "gridPoint_default =
     \<lparr>truePositives = [], falsePositives = [], objectiveFnValue = -1,
      pointAlpha = None, pointBeta = None\<rparr>"

definition gridPoint_new :: "real \<Rightarrow> real \<Rightarrow> gridPoint" where
  "gridPoint_new alpha_par beta_par =
     \<lparr>truePositives = [], falsePositives = [], objectiveFnValue = -1,
      pointAlpha = Some alpha_par, pointBeta = Some beta_par\<rparr>"

text \<open>\<^verbatim>\<open>gridPoint::operator>\<close>.\<close>

definition gridPoint_gt :: "gridPoint \<Rightarrow> gridPoint \<Rightarrow> error + bool" where
  "gridPoint_gt this rhs =
     (if objectiveFnValue this = -1 then Inl (AssertionFailed ''objectiveFnValue!=-1'')
      else if objectiveFnValue rhs = -1 then Inl (AssertionFailed ''rhs.objectiveFnValue!=-1'')
      else if objectiveFnValue this > objectiveFnValue rhs then Inr True
      else Inr False)"

text \<open>The inner loop of \<^verbatim>\<open>populateTPandFNLists\<close>; its state is \<open>(tp, fp)\<close>.\<close>

fun peptideLoop :: "ScoreHolder list \<Rightarrow> bool \<times> bool \<Rightarrow> bool \<times> bool" where
  "peptideLoop [] (tp, fp) = (tp, fp)"
| "peptideLoop (pept # rest) (tp, fp) =
     (if label pept \<noteq> 1 then peptideLoop rest (tp, True)
      else peptideLoop rest (True, fp))"

text \<open>The outer loop, over the entries of the protein table.\<close>

fun proteinLoop :: "(string \<times> ScoreHolder list) list \<Rightarrow> gridPoint \<Rightarrow> gridPoint" where
  "proteinLoop [] point = point"
| "proteinLoop ((prot, peptides) # rest) point =
     (let (tp, fp) = peptideLoop peptides (False, False);
          point1 = (if tp then point\<lparr>truePositives := truePositives point @ [prot]\<rparr> else point);
          point2 = (if fp then point1\<lparr>falsePositives := falsePositives point1 @ [prot]\<rparr> else point1)
      in proteinLoop rest point2)"

definition populateTPandFNLists ::
    "gridPoint \<Rightarrow> fidoOutput \<Rightarrow> ProteinProbEstimator \<Rightarrow> error + gridPoint" where
  "populateTPandFNLists point output toBeTested =
     (if length (truePositives point) \<noteq> 0
        then Inl (AssertionFailed ''point->truePositives.size()==0'')
      else if length (falsePositives point) \<noteq> 0
        then Inl (AssertionFailed ''point->falsePositives.size()==0'')
      else Inr (proteinLoop (proteinsToPeptides toBeTested) point))"

text \<open>
  \<^verbatim>\<open>calculateProteinProb(false)\<close>: the body of \<^verbatim>\<open>calculateProteinProb\<close> after the
  \<^verbatim>\<open>if(gridSearch)\<close> block. It is a definition of its own because the grid search
  calls it from every cell.
\<close>

definition calculateProteinProb_false ::
    "Collaborators \<Rightarrow> ProteinProbEstimator \<Rightarrow> error + fidoOutput \<times> ProteinProbEstimator" where
  "calculateProteinProb_false c est =
     (if alpha est = -1 then Inl (AssertionFailed ''alpha != -1'')
      else if beta est = -1 then Inl (AssertionFailed ''beta != -1'')
      else
        (let g = getProteinProbs c (alpha est) (beta est) (gamma est) (peptideScores est)
         in case buildOutput g of
              Inl e \<Rightarrow> Inl e
            | Inr output \<Rightarrow> Inr (output, est\<lparr>proteinGraph := Some g\<rparr>)))"

definition calculateObjectiveFn ::
    "Collaborators \<Rightarrow> real \<Rightarrow> gridPoint \<Rightarrow> ProteinProbEstimator
      \<Rightarrow> error + gridPoint \<times> ProteinProbEstimator" where
  "calculateObjectiveFn c lambda this toBeTested =
     (case (pointAlpha this, pointBeta this) of
        (Some a, Some b) \<Rightarrow>
          (if a = -1 then Inl (AssertionFailed ''alpha!=-1'')
           else if b = -1 then Inl (AssertionFailed ''beta!=-1'')
           else
             (case calculateProteinProb_false c (toBeTested\<lparr>alpha := a, beta := b\<rparr>) of
                Inl e \<Rightarrow> Inl e
              | Inr (output, est) \<Rightarrow>
                  (case populateTPandFNLists this output est of
                     Inl e \<Rightarrow> Inl e
                   | Inr point \<Rightarrow>
                       (let (estimatedFdrs, empiricalFdrs) =
                              calculateFDRs c output (truePositives point) (falsePositives point);
                            threshold = 0.1;
                            mse_fdr = calculateMSE_FDR c threshold estimatedFdrs empiricalFdrs;
                            (fps, tps) =
                              calculateRoc c output (truePositives point) (falsePositives point);
                            N = 50;
                            roc50 = calculateROC50 c N fps tps
                        in Inr (point\<lparr>objectiveFnValue := (1 - lambda) * mse_fdr - lambda * roc50\<rparr>,
                                est)))))
      | _ \<Rightarrow> Inl UninitialisedRead)"

section \<open>ProteinProbEstimator: the grid search\<close>

text \<open>
  \<^verbatim>\<open>numeric_limits<double>::min()\<close>: for the IEEE 754 double format this is the
  smallest positive normalised value.
\<close>

definition numeric_limits_double_min :: real where
  "numeric_limits_double_min = 1 / 2 ^ 1022"

text \<open>
  The state of the two loops: the estimator, the local \<open>bestSoFar\<close> and what was
  written to \<^verbatim>\<open>cerr\<close>.
\<close>

record searchState =
  estimator :: ProteinProbEstimator
  bestSoFar :: gridPoint
  cerr :: "event list"

text \<open>
  The body of the inner loop. In the source the statement under
  \<^verbatim>\<open>if(current>bestSoFar)\<close> is the log statement alone, since there are no braces;
  \<^verbatim>\<open>bestSoFar = current;\<close> is the next statement of the loop body.
\<close>

definition gridCell :: "Collaborators \<Rightarrow> real \<Rightarrow> real \<Rightarrow> real \<Rightarrow> searchState \<Rightarrow> error + searchState" where
  "gridCell c lambda a b s =
     (let trace1 = (if VERB c > 2 then cerr s @ [Testing a b] else cerr s);
          current = gridPoint_new a b
      in case calculateObjectiveFn c lambda current (estimator s) of
           Inl e \<Rightarrow> Inl e
         | Inr (current', est) \<Rightarrow>
             (let trace2 = (if VERB c > 2 then trace1 @ [ObjectiveValue (objectiveFnValue current')]
                          else trace1)
              in case gridPoint_gt current' (bestSoFar s) of
                   Inl e \<Rightarrow> Inl e
                 | Inr better \<Rightarrow>
                     (let trace3 = (if better then (if VERB c > 2 then trace2 @ [BestChoiceSoFar] else trace2)
                                  else trace2)
                      in Inr \<lparr>estimator = est, bestSoFar = current', cerr = trace3\<rparr>)))"

function betaLoop :: "Collaborators \<Rightarrow> real \<Rightarrow> real \<Rightarrow> real \<Rightarrow> real \<Rightarrow> searchState
    \<Rightarrow> error + searchState" where
  "betaLoop c lambda a b upper_b s =
     (if b \<le> upper_b then
        (case gridCell c lambda a b s of
           Inl e \<Rightarrow> Inl e
         | Inr s' \<Rightarrow> betaLoop c lambda a (b + 0.05) upper_b s')
      else Inr s)"
  by pat_completeness auto
termination
proof (relation "measure (\<lambda>(c, lambda, a, b, upper_b, s).
                   if b \<le> upper_b then nat \<lfloor>(upper_b - b) * 20\<rfloor> + 1 else 0)")
  show "wf (measure (\<lambda>(c, lambda, a, b, upper_b, s).
                   if b \<le> upper_b then nat \<lfloor>(upper_b - b) * 20\<rfloor> + 1 else 0))"
    by simp
next
  fix c :: Collaborators and lambda a b upper_b :: real and s x2 :: searchState
  assume le: "b \<le> upper_b"
  have "\<lfloor>(upper_b - (b + 5 / 10\<^sup>2)) * 20\<rfloor> = \<lfloor>(upper_b - b) * 20\<rfloor> - 1"
    by (simp add: algebra_simps) linarith
  moreover have "0 \<le> \<lfloor>(upper_b - b) * 20\<rfloor>"
    using le by simp
  ultimately show "((c, lambda, a, b + 5 / 10\<^sup>2, upper_b, x2), (c, lambda, a, b, upper_b, s))
      \<in> measure (\<lambda>(c, lambda, a, b, upper_b, s).
                   if b \<le> upper_b then nat \<lfloor>(upper_b - b) * 20\<rfloor> + 1 else 0)"
    by simp
qed

function alphaLoop :: "Collaborators \<Rightarrow> real \<Rightarrow> real \<Rightarrow> real \<Rightarrow> real \<Rightarrow> real \<Rightarrow> searchState
    \<Rightarrow> error + searchState" where
  "alphaLoop c lambda a upper_a lower_b upper_b s =
     (if a \<le> upper_a then
        (case betaLoop c lambda a lower_b upper_b s of
           Inl e \<Rightarrow> Inl e
         | Inr s' \<Rightarrow> alphaLoop c lambda (a + 0.05) upper_a lower_b upper_b s')
      else Inr s)"
  by pat_completeness auto
termination
proof (relation "measure (\<lambda>(c, lambda, a, upper_a, lower_b, upper_b, s).
                   if a \<le> upper_a then nat \<lfloor>(upper_a - a) * 20\<rfloor> + 1 else 0)")
  show "wf (measure (\<lambda>(c, lambda, a, upper_a, lower_b, upper_b, s).
                   if a \<le> upper_a then nat \<lfloor>(upper_a - a) * 20\<rfloor> + 1 else 0))"
    by simp
next
  fix c :: Collaborators and lambda a upper_a lower_b upper_b :: real and s x2 :: searchState
  assume le: "a \<le> upper_a"
  have "\<lfloor>(upper_a - (a + 5 / 10\<^sup>2)) * 20\<rfloor> = \<lfloor>(upper_a - a) * 20\<rfloor> - 1"
    by (simp add: algebra_simps) linarith
  moreover have "0 \<le> \<lfloor>(upper_a - a) * 20\<rfloor>"
    using le by simp
  ultimately show "((c, lambda, a + 5 / 10\<^sup>2, upper_a, lower_b, upper_b, x2),
                    (c, lambda, a, upper_a, lower_b, upper_b, s))
      \<in> measure (\<lambda>(c, lambda, a, upper_a, lower_b, upper_b, s).
                   if a \<le> upper_a then nat \<lfloor>(upper_a - a) * 20\<rfloor> + 1 else 0)"
    by simp
qed

text \<open>
  \<^verbatim>\<open>gridSearchAlphaBeta\<close> up to the end of the loops, with the local \<open>bestSoFar\<close>
  still in the state.
\<close>

definition gridSearch_loops :: "Collaborators \<Rightarrow> ProteinProbEstimator \<Rightarrow> event list
    \<Rightarrow> error + searchState" where
  "gridSearch_loops c this trace =
     (let lambda = 0.15;
          seed = gridPoint_default\<lparr>objectiveFnValue := numeric_limits_double_min\<rparr>;
          lower_a = 0.01; upper_a = 0.76;
          lower_b = 0.0; upper_b = 0.80;
          (lower_a, upper_a) =
             (if alpha this \<noteq> -1 then (alpha this, alpha this) else (lower_a, upper_a));
          (lower_a, upper_a) =
             (if beta this \<noteq> -1 then (beta this, beta this) else (lower_a, upper_a))
      in alphaLoop c lambda lower_a upper_a lower_b upper_b
           \<lparr>estimator = this, bestSoFar = seed, cerr = trace\<rparr>)"

text \<open>The function returns nothing: \<open>bestSoFar\<close> goes out of scope at its end.\<close>

definition gridSearchAlphaBeta :: "Collaborators \<Rightarrow> ProteinProbEstimator \<Rightarrow> event list
    \<Rightarrow> error + ProteinProbEstimator \<times> event list" where
  "gridSearchAlphaBeta c this trace =
     (case gridSearch_loops c this trace of
        Inl e \<Rightarrow> Inl e
      | Inr s \<Rightarrow> Inr (estimator s, cerr s))"

definition calculateProteinProb :: "Collaborators \<Rightarrow> bool \<Rightarrow> ProteinProbEstimator \<Rightarrow> event list
    \<Rightarrow> error + fidoOutput \<times> ProteinProbEstimator \<times> event list" where
  "calculateProteinProb c gridSearch this trace =
     (case (if gridSearch then
              (let trace1 = (if VERB c > 2 then trace @ [EstimatingByGridSearch] else trace)
               in case gridSearchAlphaBeta c this trace1 of
                    Inl e \<Rightarrow> Inl e
                  | Inr (est, trace2) \<Rightarrow>
                      Inr (est, if VERB c > 2
                                then trace2 @ [ParametersChosen (alpha est) (beta est)]
                                else trace2))
            else Inr (this, trace)) of
        Inl e \<Rightarrow> Inl e
      | Inr (est, trace') \<Rightarrow>
          (case calculateProteinProb_false c est of
             Inl e \<Rightarrow> Inl e
           | Inr (output, est') \<Rightarrow> Inr (output, est', trace')))"

section \<open>A stubbed engine for concrete runs\<close>

text \<open>
  A deterministic stand-in for the collaborators: the engine returns one equivalence
  class whose posterior error is \<open>(beta - 1/2)\<^sup>2\<close>, the estimated FDR curve is the
  q-value array, the calibration error is the sum of that curve, and the ROC score is
  \<open>0\<close>. The objective of a cell is then \<open>0.85 * (beta - 1/2)\<^sup>2\<close>: greatest in the
  first cell of a row (\<open>beta = 0\<close>), least at \<open>beta = 0.5\<close>.
\<close>

definition stubCollaborators :: Collaborators where
  "stubCollaborators =
     \<lparr>VERB = 3,
      getProteinProbs = (\<lambda>a b g scores. \<lparr>probabilityR = [(b - 1 / 2)\<^sup>2], groupProtNames = [[''protA'']]\<rparr>),
      calculateFDRs = (\<lambda>output tp fp. (qvalues output, [])),
      calculateMSE_FDR = (\<lambda>threshold estimated empirical. sum_list estimated),
      calculateRoc = (\<lambda>output tp fp. ([], [])),
      calculateROC50 = (\<lambda>N fps tps. 0)\<rparr>"

text \<open>The \<open>Testing\<close> events of a log: the cells that were evaluated, in order.\<close>

fun testedCells :: "event list \<Rightarrow> (real \<times> real) list" where
  "testedCells [] = []"
| "testedCells (Testing a b # evs) = (a, b) # testedCells evs"
| "testedCells (_ # evs) = testedCells evs"

text \<open>The \<open>ObjectiveValue\<close> events of a log: the objective of every cell, in order.\<close>

fun objectiveValues :: "event list \<Rightarrow> real list" where
  "objectiveValues [] = []"
| "objectiveValues (ObjectiveValue v # evs) = v # objectiveValues evs"
| "objectiveValues (_ # evs) = objectiveValues evs"

text \<open>
  The same stand-in with a ROC score of \<open>2\<close>: the objective of the first cell of a row
  is then \<open>0.85 * 0.25 - 0.15 * 2\<close>, a negative number.
\<close>

definition negativeCollaborators :: Collaborators where
  "negativeCollaborators = stubCollaborators\<lparr>calculateROC50 := (\<lambda>N fps tps. 2)\<rparr>"

text \<open>An engine that finds no equivalence class at all.\<close>

definition emptyGraph :: GroupPowerBigraph where
  "emptyGraph = \<lparr>probabilityR = [], groupProtNames = []\<rparr>"

definition emptyCollaborators :: Collaborators where
  "emptyCollaborators = stubCollaborators\<lparr>getProteinProbs := (\<lambda>a b g scores. emptyGraph)\<rparr>"

text \<open>Three equivalence classes, not yet in order.\<close>

definition exampleGraph :: GroupPowerBigraph where
  "exampleGraph = \<lparr>probabilityR = [3 / 10, 1 / 10, 2 / 10],
                    groupProtNames = [[''protA''], [''protB''], [''protC'', ''protD'']]\<rparr>"

text \<open>
  A target peptide of protein A and a decoy peptide shared by proteins A and B, and the
  estimator initialised from the two.
\<close>

definition targetPeptide :: ScoreHolder where
  "targetPeptide = \<lparr>label = 1, proteinIds = {''protA''}, peptide = ''AAK''\<rparr>"

definition decoyPeptide :: ScoreHolder where
  "decoyPeptide = \<lparr>label = -1, proteinIds = {''protA'', ''protB''}, peptide = ''CCK''\<rparr>"

definition exampleEstimator :: ProteinProbEstimator where
  "exampleEstimator =
     snd (initialize [targetPeptide, decoyPeptide] (ProteinProbEstimator_new (1 / 10) (1 / 100)))"

definition exampleOutput :: fidoOutput where
  "exampleOutput = \<lparr>peps = [1 / 10], protein_ids = [[''protA'', ''protB'']], qvalues = [1 / 10]\<rparr>"

text \<open>
  The recursive equations of the three loops are applied by hand, one unfolding at a
  time.
\<close>

declare buildOutput_loop.simps [simp del] betaLoop.simps [simp del] alphaLoop.simps [simp del]

section \<open>Facts about IntraSetRelation\<close>


lemma registerRel_body_prot2pep:
  "prot2pep (fold (registerRel_body pep) ps r) p =
     (if p \<in> set ps
      then Some (insert pep (case prot2pep r p of None \<Rightarrow> {} | Some s \<Rightarrow> s))
      else prot2pep r p)"
proof (induction ps arbitrary: r)
  case Nil
  show ?case by simp
next
  case (Cons q ps)
  have step: "prot2pep (registerRel_body pep q r) =
      (prot2pep r)(q \<mapsto> insert pep (case prot2pep r q of None \<Rightarrow> {} | Some s \<Rightarrow> s))"
    by (auto simp: registerRel_body_def subscript_def Let_def split: option.splits)
  show ?case
    by (simp add: Cons.IH step)
qed


lemma getPepSites_body_counts:
  "numProteins (snd (fold getPepSites_body ps (n, r))) = numProteins r \<and>
   numPeptides (snd (fold getPepSites_body ps (n, r))) = numPeptides r"
  by (induction ps arbitrary: n r)
     (simp_all add: getPepSites_body_def Let_def split: prod.splits)

lemma getPepSites_body_prot2pep:
  "prot2pep (snd (fold getPepSites_body ps (n, r))) p =
     (if p \<in> set ps \<and> prot2pep r p = None then Some {} else prot2pep r p)"
proof (induction ps arbitrary: n r)
  case Nil
  show ?case by simp
next
  case (Cons q ps)
  obtain n' r' where step: "getPepSites_body q (n, r) = (n', r')"
    by (cases "getPepSites_body q (n, r)")
  then have r': "prot2pep r' = (case prot2pep r q of None \<Rightarrow> (prot2pep r)(q \<mapsto> {})
                                | Some s \<Rightarrow> prot2pep r)"
    by (auto simp: getPepSites_body_def subscript_def Let_def split: option.splits)
  show ?case
    by (auto simp: step Cons.IH r' split: option.splits)
qed



lemma registerRel_prot2pep:
  "finite prot \<Longrightarrow>
   prot2pep (registerRel r pep prot) p =
     (if p \<in> prot
      then Some (insert pep (case prot2pep r p of None \<Rightarrow> {} | Some s \<Rightarrow> s))
      else prot2pep r p)"
  by (simp add: registerRel_def registerRel_body_prot2pep)

lemma getPepSites_counts:
  "numProteins (snd (getPepSites r prot)) = numProteins r \<and>
   numPeptides (snd (getPepSites r prot)) = numPeptides r"
  by (simp add: getPepSites_def getPepSites_body_counts)

lemma getPepSites_prot2pep:
  "finite prot \<Longrightarrow>
   prot2pep (snd (getPepSites r prot)) p =
     (if p \<in> prot \<and> prot2pep r p = None then Some {} else prot2pep r p)"
  by (simp add: getPepSites_def getPepSites_body_prot2pep)

section \<open>Claims about IntraSetRelation\<close>




text \<open>
  C10 (as amended). \<open>getPepSites\<close> never changes the two occurrence-count maps, and in
  \<open>prot2pep\<close> it changes nothing but this: every protein id of the argument that has no
  entry gets one, with the empty peptide set. When every id of the argument already has
  an entry, the whole state is unchanged.
\<close>

theorem getPepSites_frame:
  assumes fin: "finite prot"
  shows "numProteins (snd (getPepSites r prot)) = numProteins r \<and>
         numPeptides (snd (getPepSites r prot)) = numPeptides r \<and>
         (\<forall>p. prot2pep (snd (getPepSites r prot)) p =
               (if p \<in> prot \<and> prot2pep r p = None then Some {} else prot2pep r p)) \<and>
         (prot \<subseteq> dom (prot2pep r) \<longrightarrow> snd (getPepSites r prot) = r)"
proof -
  have maps: "\<forall>p. prot2pep (snd (getPepSites r prot)) p =
               (if p \<in> prot \<and> prot2pep r p = None then Some {} else prot2pep r p)"
    by (simp add: getPepSites_prot2pep [OF fin])
  have "snd (getPepSites r prot) = r" if sub: "prot \<subseteq> dom (prot2pep r)"
  proof -
    have "prot2pep (snd (getPepSites r prot)) = prot2pep r"
    proof
      fix p
      from sub have "p \<in> prot \<Longrightarrow> prot2pep r p \<noteq> None" by auto
      then show "prot2pep (snd (getPepSites r prot)) p = prot2pep r p"
        using maps by auto
    qed
    then show ?thesis
      using getPepSites_counts [of r prot] by (simp add: IntraSetRelation.equality)
  qed
  then show ?thesis
    using maps getPepSites_counts [of r prot] by blast
qed

theorem getPepSites_frame_witness:
  "finite {''protA''} \<and>
   {''protA''} \<subseteq> dom (prot2pep (registerRel IntraSetRelation_new ''PEPTIDEK'' {''protA''})) \<and>
   snd (getPepSites (registerRel IntraSetRelation_new ''PEPTIDEK'' {''protA''}) {''protA''}) =
     registerRel IntraSetRelation_new ''PEPTIDEK'' {''protA''}"
proof -
  have fin: "finite {''protA''}" by simp
  have sub: "{''protA''} \<subseteq> dom (prot2pep (registerRel IntraSetRelation_new ''PEPTIDEK'' {''protA''}))"
    by (simp add: registerRel_prot2pep dom_def)
  show ?thesis
    using fin sub
      getPepSites_frame [OF fin, of "registerRel IntraSetRelation_new ''PEPTIDEK'' {''protA''}"]
    by blast
qed

text \<open>
  C10 as stated fails: asking for a protein id that was never registered adds an entry
  for it to \<open>prot2pep\<close>, so the state after the query differs from the state before.
\<close>

theorem getPepSites_pure_counterexample:
  "snd (getPepSites IntraSetRelation_new {''unregistered''}) \<noteq> IntraSetRelation_new"
proof
  assume "snd (getPepSites IntraSetRelation_new {''unregistered''}) = IntraSetRelation_new"
  then have "prot2pep (snd (getPepSites IntraSetRelation_new {''unregistered''})) ''unregistered''
             = prot2pep IntraSetRelation_new ''unregistered''"
    by simp
  then show False
    by (simp add: getPepSites_prot2pep IntraSetRelation_new_def)
qed

section \<open>Facts about buildOutput\<close>


lemma buildOutput_loop_inv:
  assumes "length indices = length sortedPeps"
    and "\<forall>i<length indices. indices ! i < length (groupProtNames g)"
    and "length ids = length sortedPeps"
    and "length qs = length sortedPeps"
  shows "\<exists>ids' qs' s'.
           buildOutput_loop g sortedPeps indices k (ids, qs, s) = Inr (ids', qs', s') \<and>
           length ids' = length sortedPeps \<and> length qs' = length sortedPeps \<and>
           (\<forall>j<k. ids' ! j = ids ! j \<and> qs' ! j = qs ! j) \<and>
           (\<forall>j. k \<le> j \<and> j < length sortedPeps \<longrightarrow>
                ids' ! j = groupProtNames g ! (indices ! j) \<and>
                qs' ! j = (s + (\<Sum>i = k..j. sortedPeps ! i)) / real (j + 1))"
  using assms
proof (induction g sortedPeps indices k "(ids, qs, s)" arbitrary: ids qs s
        rule: buildOutput_loop.induct)
  case (1 g sortedPeps indices k ids qs s)
  show ?case
  proof (cases "k < length sortedPeps")
    case False
    then show ?thesis using "1.prems"
      by (subst buildOutput_loop.simps) auto
  next
    case True
    let ?ids = "ids[k := groupProtNames g ! (indices ! k)]"
    let ?s = "s + sortedPeps ! k"
    let ?qs = "qs[k := ?s / real (k + 1)]"
    have inrange: "k < length indices \<and> indices ! k < length (groupProtNames g)"
      using True "1.prems" by simp
    have prems': "length indices = length sortedPeps"
        "\<forall>i<length indices. indices ! i < length (groupProtNames g)"
        "length ?ids = length sortedPeps" "length ?qs = length sortedPeps"
      using "1.prems" by simp_all
    from "1.hyps" [OF True inrange refl refl refl prems']
    obtain ids' qs' s' where
      run: "buildOutput_loop g sortedPeps indices (k + 1) (?ids, ?qs, ?s) = Inr (ids', qs', s')"
      and len: "length ids' = length sortedPeps" "length qs' = length sortedPeps"
      and old: "\<forall>j<k + 1. ids' ! j = ?ids ! j \<and> qs' ! j = ?qs ! j"
      and new: "\<forall>j. k + 1 \<le> j \<and> j < length sortedPeps \<longrightarrow>
                ids' ! j = groupProtNames g ! (indices ! j) \<and>
                qs' ! j = (?s + (\<Sum>i = k + 1..j. sortedPeps ! i)) / real (j + 1)"
      by blast
    have eq: "buildOutput_loop g sortedPeps indices k (ids, qs, s) = Inr (ids', qs', s')"
      using True inrange run by (subst buildOutput_loop.simps) (simp add: Let_def)
    have before: "\<forall>j<k. ids' ! j = ids ! j \<and> qs' ! j = qs ! j"
      using old by (auto simp: nth_list_update)
    have at_k: "ids' ! k = groupProtNames g ! (indices ! k) \<and>
                qs' ! k = (s + (\<Sum>i = k..k. sortedPeps ! i)) / real (k + 1)"
      using old True "1.prems" by simp
    have after: "ids' ! j = groupProtNames g ! (indices ! j) \<and>
                 qs' ! j = (s + (\<Sum>i = k..j. sortedPeps ! i)) / real (j + 1)"
      if "k \<le> j" "j < length sortedPeps" for j
    proof (cases "j = k")
      case True
      then show ?thesis using at_k by simp
    next
      case False
      with that have kj: "k + 1 \<le> j" by simp
      have "(\<Sum>i = k..j. sortedPeps ! i) = sortedPeps ! k + (\<Sum>i = k + 1..j. sortedPeps ! i)"
        using that by (simp add: sum.atLeast_Suc_atMost)
      then show ?thesis using new kj that by (simp add: add.assoc)
    qed
    show ?thesis
      using eq len before after by blast
  qed
qed

lemma Array_sort_props:
  assumes "Array_sort xs = (sortedPeps, indices)"
  shows "length sortedPeps = length xs" "length indices = length xs"
    "sorted sortedPeps" "mset indices = mset [0..<length xs]"
    "sortedPeps = map (\<lambda>i. xs ! i) indices" "sortedPeps = sort xs"
proof -
  let ?ps = "sort_key fst (zip xs [0..<length xs])"
  have s: "sortedPeps = map fst ?ps" and i: "indices = map snd ?ps"
    using assms by (simp_all add: Array_sort_def Let_def)
  show "length sortedPeps = length xs" by (simp add: s)
  show "length indices = length xs" by (simp add: i)
  show "sorted sortedPeps" by (simp add: s)
  have "mset ?ps = mset (zip xs [0..<length xs])" by simp
  then have "mset (map snd ?ps) = mset (map snd (zip xs [0..<length xs]))"
    by (metis mset_map)
  then show "mset indices = mset [0..<length xs]" by (simp add: i)
  have "\<forall>p\<in>set ?ps. fst p = xs ! snd p"
    by (auto simp: set_zip)
  then show "sortedPeps = map (\<lambda>i. xs ! i) indices"
    unfolding s i by (induction ?ps) auto
  have "mset (map fst ?ps) = mset (map fst (zip xs [0..<length xs]))"
    by (metis mset_map mset_sort)
  then have "mset sortedPeps = mset xs" by (simp add: s)
  then show "sortedPeps = sort xs"
    using \<open>sorted sortedPeps\<close> by (metis properties_for_sort)
qed

lemma buildOutput_result:
  assumes ne: "probabilityR g \<noteq> []"
    and len: "length (groupProtNames g) = length (probabilityR g)"
  shows "\<exists>out indices.
           buildOutput g = Inr out \<and>
           Array_sort (probabilityR g) = (peps out, indices) \<and>
           length (protein_ids out) = length (peps out) \<and>
           length (qvalues out) = length (peps out) \<and>
           (\<forall>j<length (peps out).
               protein_ids out ! j = groupProtNames g ! (indices ! j) \<and>
               qvalues out ! j = (\<Sum>i = 0..j. peps out ! i) / real (j + 1))"
proof -
  obtain sortedPeps indices where srt: "Array_sort (probabilityR g) = (sortedPeps, indices)"
    by (cases "Array_sort (probabilityR g)")
  note props = Array_sort_props [OF srt]
  let ?n = "length sortedPeps"
  have "set indices = {0..<length (probabilityR g)}"
    using props(4) by (metis mset_eq_setD set_upt)
  then have inrange: "\<forall>i<length indices. indices ! i < length (groupProtNames g)"
    using len by (metis atLeastLessThan_iff nth_mem)
  have "length indices = length sortedPeps"
    using props(1,2) by simp
  from buildOutput_loop_inv [OF this inrange, of "replicate ?n []" "replicate ?n 0" 0 0]
  obtain ids' qs' s' where
    run: "buildOutput_loop g sortedPeps indices 0 (replicate ?n [], replicate ?n 0, 0)
            = Inr (ids', qs', s')"
    and lens: "length ids' = ?n" "length qs' = ?n"
    and vals: "\<forall>j. 0 \<le> j \<and> j < ?n \<longrightarrow>
                ids' ! j = groupProtNames g ! (indices ! j) \<and>
                qs' ! j = (0 + (\<Sum>i = 0..j. sortedPeps ! i)) / real (j + 1)"
    by auto
  have "buildOutput g = Inr \<lparr>peps = sortedPeps, protein_ids = ids', qvalues = qs'\<rparr>"
    using ne srt run by (simp add: buildOutput_def)
  then show ?thesis
    using srt lens vals by auto
qed

section \<open>Claims about buildOutput\<close>



text \<open>
  C5. Aggregation of an inference result with no equivalence class fails: the assertion
  at the head of \<open>buildOutput\<close> aborts, no empty output is produced. In the grid
  search the failure is the result of the cell and of the loop around it; the cell is
  not skipped.
\<close>

theorem buildOutput_empty:
  assumes empty: "probabilityR g = []"
  shows "buildOutput g = Inl (AssertionFailed ''sorted.size()!=0'') \<and>
         (\<forall>c lambda a b upper_b s.
            a \<noteq> -1 \<and> b \<noteq> -1 \<and> b \<le> upper_b \<and>
            getProteinProbs c a b (gamma (estimator s)) (peptideScores (estimator s)) = g \<longrightarrow>
              gridCell c lambda a b s = Inl (AssertionFailed ''sorted.size()!=0'') \<and>
              betaLoop c lambda a b upper_b s = Inl (AssertionFailed ''sorted.size()!=0''))"
proof -
  have out: "buildOutput g = Inl (AssertionFailed ''sorted.size()!=0'')"
    using empty by (simp add: buildOutput_def)
  have cell: "gridCell c lambda a b s = Inl (AssertionFailed ''sorted.size()!=0'')"
    if "a \<noteq> -1" "b \<noteq> -1"
      "getProteinProbs c a b (gamma (estimator s)) (peptideScores (estimator s)) = g"
    for c lambda a b s
    using that out
    by (simp add: gridCell_def gridPoint_new_def calculateObjectiveFn_def
          calculateProteinProb_false_def Let_def)
  have "betaLoop c lambda a b upper_b s = Inl (AssertionFailed ''sorted.size()!=0'')"
    if "a \<noteq> -1" "b \<noteq> -1" "b \<le> upper_b"
      "getProteinProbs c a b (gamma (estimator s)) (peptideScores (estimator s)) = g"
    for c lambda a b upper_b s
    using that cell [of a b c s lambda] by (subst betaLoop.simps) simp
  then show ?thesis
    using out cell by blast
qed

theorem buildOutput_empty_witness:
  "probabilityR emptyGraph = [] \<and>
   buildOutput emptyGraph = Inl (AssertionFailed ''sorted.size()!=0'') \<and>
   ((1 / 100 :: real) \<noteq> -1 \<and> (0 :: real) \<noteq> -1 \<and> (0 :: real) \<le> 4 / 5 \<and>
    getProteinProbs emptyCollaborators (1 / 100) 0
      (gamma (estimator \<lparr>estimator = ProteinProbEstimator_new (-1) (-1),
                          bestSoFar = gridPoint_default, cerr = []\<rparr>))
      (peptideScores (estimator \<lparr>estimator = ProteinProbEstimator_new (-1) (-1),
                                  bestSoFar = gridPoint_default, cerr = []\<rparr>)) = emptyGraph) \<and>
   betaLoop emptyCollaborators (15 / 100) (1 / 100) 0 (4 / 5)
     \<lparr>estimator = ProteinProbEstimator_new (-1) (-1), bestSoFar = gridPoint_default, cerr = []\<rparr>
     = Inl (AssertionFailed ''sorted.size()!=0'')"
proof -
  have empty: "probabilityR emptyGraph = []"
    by (simp add: emptyGraph_def)
  have pre: "(1 / 100 :: real) \<noteq> -1 \<and> (0 :: real) \<noteq> -1 \<and> (0 :: real) \<le> 4 / 5 \<and>
    getProteinProbs emptyCollaborators (1 / 100) 0
      (gamma (estimator \<lparr>estimator = ProteinProbEstimator_new (-1) (-1),
                          bestSoFar = gridPoint_default, cerr = []\<rparr>))
      (peptideScores (estimator \<lparr>estimator = ProteinProbEstimator_new (-1) (-1),
                                  bestSoFar = gridPoint_default, cerr = []\<rparr>)) = emptyGraph"
    by (simp add: emptyCollaborators_def)
  show ?thesis
    using empty pre buildOutput_empty [OF empty] by blast
qed

text \<open>
  C6. For every non-empty inference result (two parallel arrays), the three arrays of
  the output of \<open>buildOutput\<close> have the same length, the posterior errors are in
  non-decreasing order, and one permutation of the indices carries the input posterior
  errors to the output posterior errors and the input protein groups to the output
  protein groups.
\<close>

theorem buildOutput_aligned_sorted:
  assumes ne: "probabilityR g \<noteq> []"
    and len: "length (groupProtNames g) = length (probabilityR g)"
  shows "\<exists>out perm. buildOutput g = Inr out \<and>
           length (peps out) = length (probabilityR g) \<and>
           length (protein_ids out) = length (peps out) \<and>
           length (qvalues out) = length (peps out) \<and>
           sorted (peps out) \<and>
           mset perm = mset [0..<length (probabilityR g)] \<and>
           peps out = map (\<lambda>i. probabilityR g ! i) perm \<and>
           protein_ids out = map (\<lambda>i. groupProtNames g ! i) perm"
proof -
  from buildOutput_result [OF ne len] obtain out indices where
    run: "buildOutput g = Inr out"
    and srt: "Array_sort (probabilityR g) = (peps out, indices)"
    and leni: "length (protein_ids out) = length (peps out)"
    and lenq: "length (qvalues out) = length (peps out)"
    and vals: "\<forall>j<length (peps out). protein_ids out ! j = groupProtNames g ! (indices ! j)"
    by blast
  note props = Array_sort_props [OF srt]
  have "protein_ids out = map (\<lambda>i. groupProtNames g ! i) indices"
    using leni vals props(1,2) by (intro nth_equalityI) simp_all
  then show ?thesis
    using run leni lenq props by blast
qed

theorem buildOutput_aligned_sorted_witness:
  "probabilityR exampleGraph \<noteq> [] \<and>
   length (groupProtNames exampleGraph) = length (probabilityR exampleGraph) \<and>
   buildOutput exampleGraph =
     Inr \<lparr>peps = [1 / 10, 2 / 10, 3 / 10],
          protein_ids = [[''protB''], [''protC'', ''protD''], [''protA'']],
          qvalues = [1 / 10, 15 / 100, 2 / 10]\<rparr> \<and>
   (\<exists>out perm. buildOutput exampleGraph = Inr out \<and>
      length (protein_ids out) = length (peps out) \<and>
      length (qvalues out) = length (peps out) \<and>
      sorted (peps out) \<and>
      mset perm = mset [0..<length (probabilityR exampleGraph)] \<and>
      peps out = map (\<lambda>i. probabilityR exampleGraph ! i) perm \<and>
      protein_ids out = map (\<lambda>i. groupProtNames exampleGraph ! i) perm)"
proof -
  have ne: "probabilityR exampleGraph \<noteq> []"
    by (simp add: exampleGraph_def)
  have len: "length (groupProtNames exampleGraph) = length (probabilityR exampleGraph)"
    by (simp add: exampleGraph_def)
  have run: "buildOutput exampleGraph =
     Inr \<lparr>peps = [1 / 10, 2 / 10, 3 / 10],
          protein_ids = [[''protB''], [''protC'', ''protD''], [''protA'']],
          qvalues = [1 / 10, 15 / 100, 2 / 10]\<rparr>"
    by (simp add: exampleGraph_def buildOutput_def Array_sort_def buildOutput_loop.simps
          Let_def upt_rec)
  show ?thesis
    using ne len run buildOutput_aligned_sorted [OF ne len] by blast
qed

section \<open>Facts about the protein table and the classification\<close>

lemma tableAdd_keys: "fst ` set (tableAdd prot pept tbl) = insert prot (fst ` set tbl)"
proof (induction tbl)
  case Nil
  show ?case by simp
next
  case (Cons entry tbl)
  obtain k peptides where entry: "entry = (k, peptides)" by (cases entry)
  show ?case
    unfolding entry using Cons.IH by (simp add: insert_commute)
qed

lemma tableAdd_sorted:
  "sorted_wrt (<) (map fst tbl) \<Longrightarrow> sorted_wrt (<) (map fst (tableAdd prot pept tbl))"
proof (induction tbl)
  case Nil
  show ?case by simp
next
  case (Cons entry tbl)
  obtain k peptides where entry: "entry = (k, peptides)" by (cases entry)
  have keys: "set (map fst (tableAdd prot pept tbl)) = insert prot (set (map fst tbl))"
    using tableAdd_keys [of prot pept tbl] by simp
  show ?case
    using Cons unfolding entry by (auto simp: keys simp del: set_map)
qed

lemma populateProteinsToPeptidesTable_sorted:
  assumes "sorted_wrt (<) (map fst (proteinsToPeptides est))"
  shows "sorted_wrt (<) (map fst (proteinsToPeptides (populateProteinsToPeptidesTable fullset est)))"
proof -
  have inner: "sorted_wrt (<) (map fst (proteinsToPeptides
      (fold (\<lambda>prot est'. est'\<lparr>proteinsToPeptides := tableAdd prot pept (proteinsToPeptides est')\<rparr>) prots e)))"
    if "sorted_wrt (<) (map fst (proteinsToPeptides e))" for prots pept e
    using that by (induction prots arbitrary: e) (simp_all add: tableAdd_sorted)
  show ?thesis
    unfolding populateProteinsToPeptidesTable_def
    using assms by (induction fullset arbitrary: est) (simp_all add: inner)
qed

lemma exampleEstimator_table:
  "proteinsToPeptides exampleEstimator =
     [(''protA'', [targetPeptide, decoyPeptide]), (''protB'', [decoyPeptide])]"
  by code_simp

lemma peptideLoop_eq:
  "peptideLoop peptides (tp, fp) =
     (tp \<or> (\<exists>p\<in>set peptides. label p = 1), fp \<or> (\<exists>p\<in>set peptides. label p \<noteq> 1))"
  by (induction peptides arbitrary: tp fp) auto

lemma proteinLoop_eq:
  "truePositives (proteinLoop tbl point) =
     truePositives point @ map fst (filter (\<lambda>(prot, peptides). \<exists>p\<in>set peptides. label p = 1) tbl) \<and>
   falsePositives (proteinLoop tbl point) =
     falsePositives point @ map fst (filter (\<lambda>(prot, peptides). \<exists>p\<in>set peptides. label p \<noteq> 1) tbl)"
proof (induction tbl arbitrary: point)
  case Nil
  show ?case by simp
next
  case (Cons entry tbl)
  obtain prot peptides where entry: "entry = (prot, peptides)" by (cases entry)
  show ?case
    unfolding entry by (simp add: Cons.IH peptideLoop_eq Let_def)
qed

lemma filter_keys_distinct:
  assumes "distinct (map fst tbl)" and "(k, v) \<in> set tbl"
  shows "k \<in> set (map fst (filter P tbl)) \<longleftrightarrow> P (k, v)"
proof
  assume "k \<in> set (map fst (filter P tbl))"
  then obtain v' where "(k, v') \<in> set tbl" and P: "P (k, v')" by auto
  with assms have "v' = v" by (meson eq_key_imp_eq_value)
  with P show "P (k, v)" by simp
next
  assume "P (k, v)"
  with assms(2) show "k \<in> set (map fst (filter P tbl))" by force
qed

section \<open>Claims about the classification of proteins\<close>

text \<open>
  C7. \<open>populateTPandFNLists\<close>, called on a fresh point, puts every protein of the
  table into \<open>truePositives\<close> if and only if one of its peptides has the target label
  \<open>1\<close>, and into \<open>falsePositives\<close> if and only if one of its peptides has another
  label. A protein with a target and a decoy peptide is in both lists. The keys of the
  table are distinct, as those of a \<^verbatim>\<open>std::map\<close> are.
\<close>

theorem populateTPandFNLists_classifies:
  assumes keys: "distinct (map fst (proteinsToPeptides est))"
    and tp0: "truePositives point = []"
    and fp0: "falsePositives point = []"
  shows "\<exists>point'. populateTPandFNLists point output est = Inr point' \<and>
           (\<forall>(prot, peptides) \<in> set (proteinsToPeptides est).
              (prot \<in> set (truePositives point') \<longleftrightarrow> (\<exists>p\<in>set peptides. label p = 1)) \<and>
              (prot \<in> set (falsePositives point') \<longleftrightarrow> (\<exists>p\<in>set peptides. label p \<noteq> 1)))"
proof -
  let ?tbl = "proteinsToPeptides est"
  let ?point = "proteinLoop ?tbl point"
  have run: "populateTPandFNLists point output est = Inr ?point"
    using tp0 fp0 by (simp add: populateTPandFNLists_def)
  have "(prot \<in> set (truePositives ?point) \<longleftrightarrow> (\<exists>p\<in>set peptides. label p = 1)) \<and>
        (prot \<in> set (falsePositives ?point) \<longleftrightarrow> (\<exists>p\<in>set peptides. label p \<noteq> 1))"
    if "(prot, peptides) \<in> set ?tbl" for prot peptides
    using filter_keys_distinct [OF keys that,
            of "\<lambda>(prot, peptides). \<exists>p\<in>set peptides. label p = 1"]
          filter_keys_distinct [OF keys that,
            of "\<lambda>(prot, peptides). \<exists>p\<in>set peptides. label p \<noteq> 1"]
    by (simp add: proteinLoop_eq tp0 fp0)
  then show ?thesis
    using run by blast
qed

theorem populateTPandFNLists_classifies_witness:
  "distinct (map fst (proteinsToPeptides exampleEstimator)) \<and>
   truePositives (gridPoint_new (1 / 10) (1 / 100)) = [] \<and>
   falsePositives (gridPoint_new (1 / 10) (1 / 100)) = [] \<and>
   (''protA'', [targetPeptide, decoyPeptide]) \<in> set (proteinsToPeptides exampleEstimator) \<and>
   (\<exists>point'. populateTPandFNLists (gridPoint_new (1 / 10) (1 / 100)) exampleOutput exampleEstimator
                 = Inr point' \<and>
      ''protA'' \<in> set (truePositives point') \<and> ''protA'' \<in> set (falsePositives point'))"
proof -
  have keys: "distinct (map fst (proteinsToPeptides exampleEstimator))"
    by (simp add: exampleEstimator_table)
  have tp0: "truePositives (gridPoint_new (1 / 10) (1 / 100)) = []"
    and fp0: "falsePositives (gridPoint_new (1 / 10) (1 / 100)) = []"
    by (simp_all add: gridPoint_new_def)
  have entry: "(''protA'', [targetPeptide, decoyPeptide]) \<in> set (proteinsToPeptides exampleEstimator)"
    by (simp add: exampleEstimator_table)
  from populateTPandFNLists_classifies [OF keys tp0 fp0, of exampleOutput] obtain point' where
    run: "populateTPandFNLists (gridPoint_new (1 / 10) (1 / 100)) exampleOutput exampleEstimator = Inr point'"
    and cls: "\<forall>(prot, peptides) \<in> set (proteinsToPeptides exampleEstimator).
              (prot \<in> set (truePositives point') \<longleftrightarrow> (\<exists>p\<in>set peptides. label p = 1)) \<and>
              (prot \<in> set (falsePositives point') \<longleftrightarrow> (\<exists>p\<in>set peptides. label p \<noteq> 1))"
    by blast
  from cls entry have
    "(''protA'' \<in> set (truePositives point') \<longleftrightarrow>
        (\<exists>p\<in>set [targetPeptide, decoyPeptide]. label p = 1)) \<and>
     (''protA'' \<in> set (falsePositives point') \<longleftrightarrow>
        (\<exists>p\<in>set [targetPeptide, decoyPeptide]. label p \<noteq> 1))"
    by blast
  then have "''protA'' \<in> set (truePositives point') \<and> ''protA'' \<in> set (falsePositives point')"
    by (simp add: targetPeptide_def decoyPeptide_def)
  with keys tp0 fp0 entry run show ?thesis
    by blast
qed

section \<open>Claims about the grid search\<close>

text \<open>
  Whatever the comparison says, a cell that is evaluated becomes \<open>bestSoFar\<close>, and
  the estimator carries the coordinates of that cell.
\<close>

lemma proteinLoop_coords:
  "pointAlpha (proteinLoop tbl point) = pointAlpha point \<and>
   pointBeta (proteinLoop tbl point) = pointBeta point"
proof (induction tbl arbitrary: point)
  case Nil
  show ?case by simp
next
  case (Cons entry tbl)
  obtain prot peptides where entry: "entry = (prot, peptides)" by (cases entry)
  show ?case
    unfolding entry by (simp add: Cons.IH Let_def split: prod.splits)
qed

lemma gridCell_bestSoFar:
  assumes "gridCell c lambda a b s = Inr s'"
  shows "pointAlpha (bestSoFar s') = Some a \<and> pointBeta (bestSoFar s') = Some b \<and>
         alpha (estimator s') = a \<and> beta (estimator s') = b"
  using assms
  by (auto simp: gridCell_def gridPoint_new_def calculateObjectiveFn_def
        calculateProteinProb_false_def populateTPandFNLists_def gridPoint_gt_def Let_def
        proteinLoop_coords
      split: if_splits sum.splits prod.splits)

text \<open>
  C1 fails on the code. Alpha is pinned to \<open>0.1\<close> and beta is searched; with the
  stubbed engine the objective of the first cell \<open>(0.1, 0)\<close> is \<open>17/80\<close>, the
  greatest of the row. After the loops \<open>bestSoFar\<close> is the last cell
  \<open>(0.1, 0.8)\<close> with the objective \<open>153/2000\<close>: the assignment
  \<^verbatim>\<open>bestSoFar = current\<close> is not under the \<^verbatim>\<open>if\<close>.
\<close>

theorem gridSearch_bestSoFar_is_last_cell:
  "map_sum id (\<lambda>(point, est). objectiveFnValue point)
     (calculateObjectiveFn stubCollaborators (15 / 100) (gridPoint_new (1 / 10) 0)
        (ProteinProbEstimator_new (1 / 10) (-1))) = Inr (17 / 80) \<and>
   map_sum id
     (\<lambda>s. (pointAlpha (bestSoFar s), pointBeta (bestSoFar s), objectiveFnValue (bestSoFar s)))
     (gridSearch_loops stubCollaborators (ProteinProbEstimator_new (1 / 10) (-1)) [])
     = Inr (Some (1 / 10), Some (4 / 5), 153 / 2000)"
  by code_simp

text \<open>
  C2 fails on the code. In the same run the objectives of the seventeen cells are
  listed below; the first, at beta \<open>0\<close>, is the greatest and the eleventh, at beta
  \<open>0.5\<close>, the least. \<open>gridSearchAlphaBeta\<close> writes no coordinate of \<open>bestSoFar\<close>
  back: the estimator keeps the beta \<open>0.8\<close> of the last cell evaluated, reports it as
  the chosen parameter, and the final posterior error \<open>(0.8 - 0.5)\<^sup>2\<close> is computed
  with it.
\<close>

theorem calculateProteinProb_keeps_last_cell:
  "map_sum id
     (\<lambda>(output, est, trace). (alpha est, beta est, peps output, objectiveValues trace, last trace))
     (calculateProteinProb stubCollaborators True (ProteinProbEstimator_new (1 / 10) (-1)) [])
   = Inr (1 / 10, 4 / 5, [9 / 100],
          [17 / 80, 1377 / 8000, 17 / 125, 833 / 8000, 153 / 2000, 17 / 320, 17 / 500,
           153 / 8000, 17 / 2000, 17 / 8000, 0, 17 / 8000, 17 / 2000, 153 / 8000, 17 / 500,
           17 / 320, 153 / 2000],
          ParametersChosen (1 / 10) (4 / 5))"
  by code_simp

text \<open>
  C3 fails on the code. Beta is pinned to \<open>0.3\<close> and alpha is unset. The cells that
  are evaluated all have alpha \<open>0.3\<close>, the pinned value of beta, and beta runs over
  its whole range: the second test assigns to \<^verbatim>\<open>lower_a\<close> and \<^verbatim>\<open>upper_a\<close>
  again. The estimator ends with alpha \<open>0.3\<close> and beta \<open>0.8\<close>.
\<close>

theorem gridSearch_beta_pinned:
  "map_sum id (\<lambda>(est, trace). (alpha est, beta est, testedCells trace))
     (gridSearchAlphaBeta stubCollaborators (ProteinProbEstimator_new (-1) (3 / 10)) [])
   = Inr (3 / 10, 4 / 5,
          [(3 / 10, 0), (3 / 10, 1 / 20), (3 / 10, 1 / 10), (3 / 10, 3 / 20), (3 / 10, 1 / 5),
           (3 / 10, 1 / 4), (3 / 10, 3 / 10), (3 / 10, 7 / 20), (3 / 10, 2 / 5), (3 / 10, 9 / 20),
           (3 / 10, 1 / 2), (3 / 10, 11 / 20), (3 / 10, 3 / 5), (3 / 10, 13 / 20), (3 / 10, 7 / 10),
           (3 / 10, 3 / 4), (3 / 10, 4 / 5)])"
  by code_simp

text \<open>
  C8 fails on the code. The seed of \<open>bestSoFar\<close> is the smallest positive normalised
  double, a positive number, not the least double. A first cell whose objective is
  negative (here \<open>-7/80\<close>) does not compare greater than the seed: the comparison
  yields false and no \<open>BestChoiceSoFar\<close> is logged. The cell still becomes
  \<open>bestSoFar\<close>, by the unconditional assignment.
\<close>

theorem seed_is_positive_minimum:
  "0 < numeric_limits_double_min \<and>
   gridPoint_gt ((gridPoint_new (1 / 100) 0)\<lparr>objectiveFnValue := - (7 / 80)\<rparr>)
     (gridPoint_default\<lparr>objectiveFnValue := numeric_limits_double_min\<rparr>) = Inr False \<and>
   map_sum id (\<lambda>s. (objectiveFnValue (bestSoFar s), cerr s))
     (gridCell negativeCollaborators (15 / 100) (1 / 100) 0
        \<lparr>estimator = ProteinProbEstimator_new (-1) (-1),
         bestSoFar = gridPoint_default\<lparr>objectiveFnValue := numeric_limits_double_min\<rparr>,
         cerr = []\<rparr>)
     = Inr (- (7 / 80), [Testing (1 / 100) 0, ObjectiveValue (- (7 / 80))])"
  by code_simp

end
